theory Spec2Isabelle
  imports Complex_Main "HOL-Library.Sublist"
begin

section \<open>Strings\<close>


definition upper_char :: "char \<Rightarrow> char" where
  "upper_char c =
     (case map_of (zip ''abcdefghijklmnopqrstuvwxyz'' ''ABCDEFGHIJKLMNOPQRSTUVWXYZ'') c of
        None \<Rightarrow> c | Some u \<Rightarrow> u)"


definition toUpperCase :: "string \<Rightarrow> string" where
  "toUpperCase s = map upper_char s"

text \<open>The blanks of \<^verbatim>\<open>\s\<close> and \<^verbatim>\<open>trim\<close>: space, tab, line feed, vertical tab,
  form feed, carriage return.\<close>

definition isSpace :: "char \<Rightarrow> bool" where
  "isSpace c = (c \<in> set [CHR 0x20, CHR 0x09, CHR 0x0A, CHR 0x0B, CHR 0x0C, CHR 0x0D])"



text \<open>
  \<^verbatim>\<open>filenameBase.replace(/\s+/g, "_")\<close> (part_000 line 93, teachers.js line 59):
  the scan goes left to right; where a blank is met, the greedy match \<^verbatim>\<open>\s+\<close>
  takes all the blanks that follow and one underscore is written for them; any other
  character is copied.
\<close>

function safeName :: "string \<Rightarrow> string" where
  "safeName [] = []"
| "safeName (c # cs) =
     (if isSpace c then CHR ''_'' # safeName (dropWhile isSpace cs) else c # safeName cs)"
  by pat_completeness auto
termination
  by (relation "measure length") (auto simp: length_dropWhile_le less_Suc_eq_le)



section \<open>Page layout\<close>

text \<open>
  JavaScript numbers are modelled as exact reals: the rounding of IEEE doubles is not
  part of the model.
\<close>

text \<open>
  The fit-to-page computation, written out four times in the source (part_000 lines
  112-119 and 177-184, teachers.js lines 78-85 and 146-153). The result is
  \<open>(ratio, x, y, imgWidth, imgHeight)\<close>.
\<close>

definition placement :: "real \<Rightarrow> real \<Rightarrow> real \<Rightarrow> real \<Rightarrow> real \<times> real \<times> real \<times> real \<times> real" where
  "placement pageWidth pageHeight w h =
     (let ratio = min (pageWidth / w) (pageHeight / h);
          imgWidth = w * ratio;
          imgHeight = h * ratio;
          x = (pageWidth - imgWidth) / 2;
          y = (pageHeight - imgHeight) / 2
      in (ratio, x, y, imgWidth, imgHeight))"

section \<open>The page, the cards and the external capabilities\<close>

text \<open>A thrown JavaScript value; \<open>TypeError\<close> is what calling or destructuring
  \<^verbatim>\<open>undefined\<close> throws.\<close>

datatype exn = Exn string | TypeError

fun exn_text :: "exn \<Rightarrow> string" where
  "exn_text (Exn m) = m"
| "exn_text TypeError = ''TypeError''"

text \<open>How a call ends: it returns, or an exception leaves it (for an \<^verbatim>\<open>async\<close>
  function: its promise is rejected).\<close>

datatype completion = Normal | Throw exn

text \<open>The canvas \<^verbatim>\<open>html2canvas\<close> resolves to: its pixel size and what
  \<^verbatim>\<open>canvas.toDataURL("image/png")\<close> gives (the encoded image, or an exception).\<close>

record canvas =
  width :: real
  height :: real
  toDataURL :: "exn + string"

datatype element = Element string

text \<open>
  A card of the page. \<open>data_name\<close> is the attribute \<^verbatim>\<open>data-class-name\<close> of a class
  card and \<^verbatim>\<open>data-teacher-name\<close> of a teacher card, \<open>data_search\<close> the attribute
  \<^verbatim>\<open>data-teacher-search\<close> (\<open>None\<close> where \<^verbatim>\<open>getAttribute\<close> gives \<^verbatim>\<open>null\<close>);
  \<open>table_wrapper\<close> is what \<^verbatim>\<open>card.querySelector\<close> finds for the table wrapper of
  the card's kind; \<open>display\<close> is \<^verbatim>\<open>card.style.display\<close>.
\<close>

record card =
  card_id :: string
  data_name :: "string option"
  data_search :: "string option"
  table_wrapper :: "element option"
  display :: string

text \<open>
  The document object of jsPDF, as far as the exports use it: the calls made on it,
  page by page. A new document has one blank page, which is the current one (this is
  why the batch loops call \<^verbatim>\<open>addPage\<close> for every image but the first);
  \<^verbatim>\<open>addPage\<close> closes the current page and opens a blank one; the drawing calls act
  on the current page.
\<close>

datatype draw_op =
    AddImage string string real real real real
  | SetTextColor nat nat nat
  | SetFontSize nat
  | Text string real real

type_synonym page = "draw_op list"

record pdf =
  done_pages :: "page list"
  cur_page :: page

definition new_jsPDF :: pdf where
  "new_jsPDF = \<lparr>done_pages = [], cur_page = []\<rparr>"

definition pages :: "pdf \<Rightarrow> page list" where
  "pages d = done_pages d @ [cur_page d]"

definition addPage :: "pdf \<Rightarrow> pdf" where
  "addPage d = \<lparr>done_pages = done_pages d @ [cur_page d], cur_page = []\<rparr>"

definition draw :: "draw_op \<Rightarrow> pdf \<Rightarrow> pdf" where
  "draw a d = d\<lparr>cur_page := cur_page d @ [a]\<rparr>"

text \<open>The texts drawn on a page.\<close>

fun captions :: "page \<Rightarrow> string list" where
  "captions [] = []"
| "captions (Text t x y # as) = t # captions as"
| "captions (a # as) = captions as"

text \<open>
  The class \<^verbatim>\<open>window.jspdf.jsPDF\<close>, taken as a parameter: the size of a new
  landscape A4 page in points, and the image data and file names for which
  \<^verbatim>\<open>addImage\<close> and \<^verbatim>\<open>save\<close> throw.
\<close>

record jsPDF_class =
  pageWidth :: real
  pageHeight :: real
  addImage_exn :: "string \<Rightarrow> exn option"
  save_exn :: "string \<Rightarrow> exn option"

record jspdf_ns =
  jsPDF :: "jsPDF_class option"

text \<open>The two libraries as the page finds them in \<^verbatim>\<open>window\<close>; \<open>None\<close> is
  \<^verbatim>\<open>undefined\<close>. \<open>html2canvas\<close> maps an element to what its promise settles to.\<close>

record window =
  html2canvas :: "(element \<Rightarrow> exn + canvas) option"
  jspdf :: "jspdf_ns option"

datatype download = PngFile string string | PdfFile string "page list"

record status_el =
  textContent :: string
  classList :: "string list"

datatype log_entry = ConsoleLog "string list" | ConsoleError "string list"

text \<open>
  The state of the page that the scripts read and change: the status element
  (\<open>None\<close> when \<^verbatim>\<open>getElementById("status-message")\<close> is \<^verbatim>\<open>null\<close>), the class and
  teacher cards in document order, the console, the files handed to the browser for
  download, and the elements given to \<^verbatim>\<open>html2canvas\<close> so far. The highlight ring
  and the timers that end it and hide the toast are not part of the state.
\<close>

record browser =
  statusEl :: "status_el option"
  class_cards :: "card list"
  teacher_cards :: "card list"
  console :: "log_entry list"
  downloads :: "download list"
  captures :: "element list"

section \<open>Helpers shared by both scripts\<close>

text \<open>\<^verbatim>\<open>a || d\<close> on an attribute value: \<^verbatim>\<open>null\<close> and the empty string are falsy.\<close>

definition or_else :: "string option \<Rightarrow> string \<Rightarrow> string" where
  "or_else a d = (case a of None \<Rightarrow> d | Some v \<Rightarrow> if v = [] then d else v)"

text \<open>\<^verbatim>\<open>typeof window.html2canvas !== "undefined"\<close> and
  \<^verbatim>\<open>window.jspdf && window.jspdf.jsPDF\<close>, read once when the page has loaded.\<close>

definition hasHtml2Canvas :: "window \<Rightarrow> bool" where
  "hasHtml2Canvas w = (case html2canvas w of None \<Rightarrow> False | Some h \<Rightarrow> True)"

definition hasJsPdf :: "window \<Rightarrow> bool" where
  "hasJsPdf w =
     (case jspdf w of None \<Rightarrow> False
      | Some ns \<Rightarrow> (case jsPDF ns of None \<Rightarrow> False | Some c \<Rightarrow> True))"

text \<open>\<^verbatim>\<open>await window.html2canvas(element, {...})\<close>.\<close>

definition call_html2canvas :: "window \<Rightarrow> element \<Rightarrow> browser \<Rightarrow> (exn + canvas) \<times> browser" where
  "call_html2canvas w element s =
     (case html2canvas w of
        None \<Rightarrow> (Inl TypeError, s)
      | Some h \<Rightarrow> (h element, s\<lparr>captures := captures s @ [element]\<rparr>))"

text \<open>\<^verbatim>\<open>const { jsPDF } = window.jspdf\<close>, up to the point where the class is used.\<close>

definition get_jsPDF :: "window \<Rightarrow> exn + jsPDF_class" where
  "get_jsPDF w =
     (case jspdf w of None \<Rightarrow> Inl TypeError
      | Some ns \<Rightarrow> (case jsPDF ns of None \<Rightarrow> Inl TypeError | Some c \<Rightarrow> Inr c))"

definition addImage ::
  "jsPDF_class \<Rightarrow> string \<Rightarrow> string \<Rightarrow> real \<Rightarrow> real \<Rightarrow> real \<Rightarrow> real \<Rightarrow> pdf \<Rightarrow> exn + pdf" where
  "addImage c imgData fmt x y w h d =
     (case addImage_exn c imgData of
        Some e \<Rightarrow> Inl e
      | None \<Rightarrow> Inr (draw (AddImage imgData fmt x y w h) d))"

definition save :: "jsPDF_class \<Rightarrow> pdf \<Rightarrow> string \<Rightarrow> browser \<Rightarrow> completion \<times> browser" where
  "save c d filename s =
     (case save_exn c filename of
        Some e \<Rightarrow> (Throw e, s)
      | None \<Rightarrow> (Normal, s\<lparr>downloads := downloads s @ [PdfFile filename (pages d)]\<rparr>))"

text \<open>The character U+2026 that ends the two "Preparing" messages, in UTF-8.\<close>

definition ellipsis :: string where
  "ellipsis = [CHR 0xE2, CHR 0x80, CHR 0xA6]"

text \<open>
  The body of the two batch loops (part_000 lines 166-193 with the fallback name
  \<^verbatim>\<open>"class"\<close>, teachers.js lines 135-162 with \<^verbatim>\<open>"teacher"\<close>): the document
  and the flag \<^verbatim>\<open>first\<close> are the loop's variables; an exception ends the loop with
  \<open>Inl\<close>.
\<close>

fun export_loop ::
  "window \<Rightarrow> jsPDF_class \<Rightarrow> string \<Rightarrow> card list \<Rightarrow> pdf \<Rightarrow> bool \<Rightarrow> browser
     \<Rightarrow> (exn + pdf) \<times> browser" where
  "export_loop w c fallback [] d first s = (Inr d, s)"
| "export_loop w c fallback (crd # cards) d first s =
     (let name = or_else (data_name crd) fallback in
      case table_wrapper crd of
        None \<Rightarrow> export_loop w c fallback cards d first s
      | Some wrapper \<Rightarrow>
          (case call_html2canvas w wrapper s of
             (Inl e, s1) \<Rightarrow> (Inl e, s1)
           | (Inr canvas, s1) \<Rightarrow>
               (case toDataURL canvas of
                  Inl e \<Rightarrow> (Inl e, s1)
                | Inr imgData \<Rightarrow>
                    (case placement (pageWidth c) (pageHeight c) (width canvas) (height canvas) of
                       (ratio, x, y, imgWidth, imgHeight) \<Rightarrow>
                         (case addImage c imgData ''PNG'' x y imgWidth imgHeight
                                 (if \<not> first then addPage d else d) of
                            Inl e \<Rightarrow> (Inl e, s1)
                          | Inr d1 \<Rightarrow>
                              export_loop w c fallback cards
                                (draw (Text name 30 30)
                                   (draw (SetFontSize 14) (draw (SetTextColor 230 230 230) d1)))
                                False s1)))))"

section \<open>part_000 (app.js)\<close>

text \<open>\<^verbatim>\<open>showStatus\<close>, lines 16-35. The third parameter, \<^verbatim>\<open>timeout\<close>, only
  sets the timer that hides the toast later, and is left out.\<close>

definition showStatus :: "string \<Rightarrow> string \<Rightarrow> browser \<Rightarrow> browser" where
  "showStatus message type s =
     (case statusEl s of
        None \<Rightarrow> s\<lparr>console := console s @ [ConsoleLog [toUpperCase type, message]]\<rparr>
      | Some el \<Rightarrow>
          s\<lparr>statusEl := Some (el\<lparr>textContent := message,
               classList := [''tt-status__toast'', ''tt-status__toast--visible'']
                  @ (if type = ''success'' then [''tt-status__toast--success'']
                     else if type = ''error'' then [''tt-status__toast--error''] else [])\<rparr>)\<rparr>)"

text \<open>The \<^verbatim>\<open>try\<close> block of \<^verbatim>\<open>exportElementAs\<close>, lines 86-124.\<close>

definition exportElementAs_try ::
  "window \<Rightarrow> string \<Rightarrow> element \<Rightarrow> string \<Rightarrow> browser \<Rightarrow> completion \<times> browser" where
  "exportElementAs_try w format element filenameBase s =
     (case call_html2canvas w element s of
        (Inl e, s1) \<Rightarrow> (Throw e, s1)
      | (Inr canvas, s1) \<Rightarrow>
          (case toDataURL canvas of
             Inl e \<Rightarrow> (Throw e, s1)
           | Inr imgData \<Rightarrow>
               if format = ''png'' then
                 (Normal,
                  showStatus (''Downloaded '' @ safeName filenameBase @ ''.png'') ''success''
                    (s1\<lparr>downloads := downloads s1
                           @ [PngFile (safeName filenameBase @ ''.png'') imgData]\<rparr>))
               else if format = ''pdf'' then
                 (case get_jsPDF w of
                    Inl e \<Rightarrow> (Throw e, s1)
                  | Inr c \<Rightarrow>
                      (case placement (pageWidth c) (pageHeight c) (width canvas) (height canvas) of
                         (ratio, x, y, imgWidth, imgHeight) \<Rightarrow>
                           (case addImage c imgData ''PNG'' x y imgWidth imgHeight new_jsPDF of
                              Inl e \<Rightarrow> (Throw e, s1)
                            | Inr d \<Rightarrow>
                                (case save c d (safeName filenameBase @ ''.pdf'') s1 of
                                   (Throw e, s2) \<Rightarrow> (Throw e, s2)
                                 | (Normal, s2) \<Rightarrow>
                                     (Normal,
                                      showStatus (''Downloaded '' @ safeName filenameBase @ ''.pdf'')
                                        ''success'' s2)))))
               else (Normal, s1)))"

text \<open>\<^verbatim>\<open>exportElementAs\<close>, lines 70-129: the two guards, then the \<^verbatim>\<open>try\<close> block
  and its \<^verbatim>\<open>catch\<close>.\<close>

definition exportElementAs ::
  "window \<Rightarrow> string \<Rightarrow> element option \<Rightarrow> string \<Rightarrow> browser \<Rightarrow> completion \<times> browser" where
  "exportElementAs w format element filenameBase s =
     (if \<not> hasHtml2Canvas w \<or> \<not> hasJsPdf w then
        (Normal, showStatus ''Export libraries not loaded.'' ''error'' s)
      else case element of
        None \<Rightarrow> (Normal, showStatus ''Timetable element not found.'' ''error'' s)
      | Some el \<Rightarrow>
          (case exportElementAs_try w format el filenameBase s of
             (Throw e, s1) \<Rightarrow>
               (Normal,
                showStatus ''Error during export (check console).'' ''error''
                  (s1\<lparr>console := console s1 @ [ConsoleError [''Export error:'', exn_text e]]\<rparr>))
           | (Normal, s1) \<Rightarrow> (Normal, s1)))"


text \<open>\<^verbatim>\<open>exportAllClassesPdf\<close>, lines 147-197. Nothing in it, nor in the click
  handler that awaits it (lines 215-217), catches an exception.\<close>

definition exportAllClassesPdf :: "window \<Rightarrow> browser \<Rightarrow> completion \<times> browser" where
  "exportAllClassesPdf w s =
     (if \<not> hasHtml2Canvas w \<or> \<not> hasJsPdf w then
        (Normal, showStatus ''Export libraries not loaded.'' ''error'' s)
      else if length (class_cards s) = 0 then
        (Normal, showStatus ''No class timetables to export.'' ''error'' s)
      else
        (let s1 = showStatus (''Preparing all class timetables as PDF'' @ ellipsis) ''success'' s in
         case get_jsPDF w of
           Inl e \<Rightarrow> (Throw e, s1)
         | Inr c \<Rightarrow>
             (case export_loop w c ''class'' (class_cards s) new_jsPDF True s1 of
                (Inl e, s2) \<Rightarrow> (Throw e, s2)
              | (Inr d, s2) \<Rightarrow>
                  (case save c d ''timetable-all-classes.pdf'' s2 of
                     (Throw e, s3) \<Rightarrow> (Throw e, s3)
                   | (Normal, s3) \<Rightarrow>
                       (Normal, showStatus ''Downloaded timetable-all-classes.pdf'' ''success'' s3)))))"



section \<open>teachers.js\<close>

text \<open>\<^verbatim>\<open>showStatus\<close> of teachers.js, lines 11-27, without the \<^verbatim>\<open>timeout\<close> as well.\<close>

definition teachers_showStatus :: "string \<Rightarrow> string \<Rightarrow> browser \<Rightarrow> browser" where
  "teachers_showStatus message type s =
     (case statusEl s of
        None \<Rightarrow> s
      | Some el \<Rightarrow>
          s\<lparr>statusEl := Some (el\<lparr>textContent := message,
               classList := [''tt-status__toast'', ''tt-status__toast--visible'']
                  @ (if type = ''success'' then [''tt-status__toast--success'']
                     else if type = ''error'' then [''tt-status__toast--error''] else [])\<rparr>)\<rparr>)"

text \<open>The \<^verbatim>\<open>try\<close> block of \<^verbatim>\<open>exportElement\<close>, lines 52-90.\<close>

definition exportElement_try ::
  "window \<Rightarrow> string \<Rightarrow> element \<Rightarrow> string \<Rightarrow> browser \<Rightarrow> completion \<times> browser" where
  "exportElement_try w format element filenameBase s =
     (case call_html2canvas w element s of
        (Inl e, s1) \<Rightarrow> (Throw e, s1)
      | (Inr canvas, s1) \<Rightarrow>
          (case toDataURL canvas of
             Inl e \<Rightarrow> (Throw e, s1)
           | Inr imgData \<Rightarrow>
               if format = ''png'' then
                 (Normal,
                  teachers_showStatus (''Downloaded '' @ safeName filenameBase @ ''.png'') ''success''
                    (s1\<lparr>downloads := downloads s1
                           @ [PngFile (safeName filenameBase @ ''.png'') imgData]\<rparr>))
               else if format = ''pdf'' then
                 (case get_jsPDF w of
                    Inl e \<Rightarrow> (Throw e, s1)
                  | Inr c \<Rightarrow>
                      (case placement (pageWidth c) (pageHeight c) (width canvas) (height canvas) of
                         (ratio, x, y, imgWidth, imgHeight) \<Rightarrow>
                           (case addImage c imgData ''PNG'' x y imgWidth imgHeight new_jsPDF of
                              Inl e \<Rightarrow> (Throw e, s1)
                            | Inr d \<Rightarrow>
                                (case save c d (safeName filenameBase @ ''.pdf'') s1 of
                                   (Throw e, s2) \<Rightarrow> (Throw e, s2)
                                 | (Normal, s2) \<Rightarrow>
                                     (Normal,
                                      teachers_showStatus
                                        (''Downloaded '' @ safeName filenameBase @ ''.pdf'')
                                        ''success'' s2)))))
               else (Normal, s1)))"

text \<open>\<^verbatim>\<open>exportElement\<close>, lines 36-95.\<close>

definition exportElement ::
  "window \<Rightarrow> string \<Rightarrow> element option \<Rightarrow> string \<Rightarrow> browser \<Rightarrow> completion \<times> browser" where
  "exportElement w format element filenameBase s =
     (if \<not> hasHtml2Canvas w \<or> \<not> hasJsPdf w then
        (Normal, teachers_showStatus ''Export libraries not loaded (check CDN / internet).'' ''error'' s)
      else case element of
        None \<Rightarrow> (Normal, teachers_showStatus ''Nothing to export (element not found).'' ''error'' s)
      | Some el \<Rightarrow>
          (case exportElement_try w format el filenameBase s of
             (Throw e, s1) \<Rightarrow>
               (Normal,
                teachers_showStatus ''Error while exporting (see console).'' ''error''
                  (s1\<lparr>console := console s1 @ [ConsoleError [exn_text e]]\<rparr>))
           | (Normal, s1) \<Rightarrow> (Normal, s1)))"


text \<open>The click handler of the button \<^verbatim>\<open>btn-export-all-teachers-pdf\<close>, lines
  120-166. Nothing in it catches an exception.\<close>

definition btnAll_handler :: "window \<Rightarrow> browser \<Rightarrow> completion \<times> browser" where
  "btnAll_handler w s =
     (if length (teacher_cards s) = 0 then
        (Normal, teachers_showStatus ''No teachers to export.'' ''error'' s)
      else
        (let s1 = teachers_showStatus (''Preparing all teacher timetables as PDF'' @ ellipsis)
                    ''success'' s in
         case get_jsPDF w of
           Inl e \<Rightarrow> (Throw e, s1)
         | Inr c \<Rightarrow>
             (case export_loop w c ''teacher'' (teacher_cards s) new_jsPDF True s1 of
                (Inl e, s2) \<Rightarrow> (Throw e, s2)
              | (Inr d, s2) \<Rightarrow>
                  (case save c d ''timetable-all-teachers.pdf'' s2 of
                     (Throw e, s3) \<Rightarrow> (Throw e, s3)
                   | (Normal, s3) \<Rightarrow>
                       (Normal,
                        teachers_showStatus ''Downloaded timetable-all-teachers.pdf'' ''success'' s3)))))"

text \<open>
  Lines 118-119: the handler is registered only when the button exists and both
  libraries were found; \<open>btnAll\<close> tells whether \<^verbatim>\<open>getElementById\<close> found the
  button. A click on the button runs the registered handler, if there is one.
\<close>

definition btnAll_listener :: "bool \<Rightarrow> window \<Rightarrow> (browser \<Rightarrow> completion \<times> browser) option" where
  "btnAll_listener btnAll w =
     (if btnAll \<and> hasHtml2Canvas w \<and> hasJsPdf w then Some (btnAll_handler w) else None)"

definition btnAll_click :: "bool \<Rightarrow> window \<Rightarrow> browser \<Rightarrow> completion \<times> browser" where
  "btnAll_click btnAll w s =
     (case btnAll_listener btnAll w of None \<Rightarrow> (Normal, s) | Some handler \<Rightarrow> handler s)"

section \<open>Inputs used as examples\<close>

definition a4 :: jsPDF_class where
  "a4 = \<lparr>pageWidth = 841.89, pageHeight = 595.28,
         addImage_exn = (\<lambda>imgData. None), save_exn = (\<lambda>filename. None)\<rparr>"

definition wide_canvas :: canvas where
  "wide_canvas = \<lparr>width = 1600, height = 900, toDataURL = Inr ''data:image/png;base64,AAAA''\<rparr>"

text \<open>A page with both libraries, where the element \<open>Element ''bad''\<close> cannot be
  rasterized, and a page with neither library.\<close>

definition libs :: window where
  "libs = \<lparr>html2canvas =
              Some (\<lambda>el. if el = Element ''bad'' then Inl (Exn ''render failed'') else Inr wide_canvas),
           jspdf = Some \<lparr>jsPDF = Some a4\<rparr>\<rparr>"


definition mk_card :: "string \<Rightarrow> string option \<Rightarrow> element option \<Rightarrow> card" where
  "mk_card i n wr =
     \<lparr>card_id = i, data_name = n, data_search = n, table_wrapper = wr, display = []\<rparr>"

definition page0 :: "card list \<Rightarrow> browser" where
  "page0 cards =
     \<lparr>statusEl = Some \<lparr>textContent = [], classList = []\<rparr>,
      class_cards = cards, teacher_cards = cards,
      console = [], downloads = [], captures = []\<rparr>"


text \<open>A page without status element.\<close>

definition no_status :: browser where
  "no_status = (page0 [])\<lparr>statusEl := None\<rparr>"

text \<open>Three cards: the second has no table wrapper, the third no name.\<close>

definition cards3 :: "card list" where
  "cards3 =
     [mk_card ''class-card-1'' (Some ''10 A'') (Some (Element ''t1'')),
      mk_card ''class-card-2'' (Some ''10 B'') None,
      mk_card ''class-card-3'' None (Some (Element ''t3''))]"

text \<open>Three cards of which the second cannot be rasterized.\<close>

definition cards_bad :: "card list" where
  "cards_bad =
     [mk_card ''class-card-1'' (Some ''10 A'') (Some (Element ''t1'')),
      mk_card ''class-card-2'' (Some ''10 B'') (Some (Element ''bad'')),
      mk_card ''class-card-3'' (Some ''10 C'') (Some (Element ''t3''))]"

text \<open>One card without a table wrapper.\<close>

definition cards_unresolved :: "card list" where
  "cards_unresolved = [mk_card ''class-card-1'' (Some ''10 A'') None]"

section \<open>Notions used to state the properties\<close>


text \<open>A card has a resolvable capture region when its table wrapper is found.\<close>

definition resolves :: "card \<Rightarrow> bool" where
  "resolves crd = (case table_wrapper crd of None \<Rightarrow> False | Some el \<Rightarrow> True)"

text \<open>The rasterization of a card throws: \<^verbatim>\<open>html2canvas\<close> rejects its wrapper, or
  \<^verbatim>\<open>toDataURL\<close> throws on the canvas.\<close>

definition raster_throws :: "window \<Rightarrow> card \<Rightarrow> bool" where
  "raster_throws w crd =
     (case table_wrapper crd of
        None \<Rightarrow> False
      | Some el \<Rightarrow>
          (case html2canvas w of
             None \<Rightarrow> False
           | Some h \<Rightarrow>
               (case h el of
                  Inl e \<Rightarrow> True
                | Inr canvas \<Rightarrow> (case toDataURL canvas of Inl e \<Rightarrow> True | Inr imgData \<Rightarrow> False))))"

text \<open>Nothing throws while the loop handles a card: it has no wrapper, or the
  wrapper is rasterized and \<^verbatim>\<open>addImage\<close> takes the image.\<close>

definition exports_ok :: "window \<Rightarrow> jsPDF_class \<Rightarrow> card \<Rightarrow> bool" where
  "exports_ok w c crd =
     (case table_wrapper crd of
        None \<Rightarrow> True
      | Some el \<Rightarrow>
          (case html2canvas w of
             None \<Rightarrow> False
           | Some h \<Rightarrow>
               (case h el of
                  Inl e \<Rightarrow> False
                | Inr canvas \<Rightarrow>
                    (case toDataURL canvas of
                       Inl e \<Rightarrow> False
                     | Inr imgData \<Rightarrow>
                         (case addImage_exn c imgData of None \<Rightarrow> True | Some e \<Rightarrow> False)))))"

text \<open>The page expected for a card in a batch document: the image of its wrapper,
  placed as the layout says, and its name over it.\<close>

definition card_page :: "window \<Rightarrow> jsPDF_class \<Rightarrow> string \<Rightarrow> card \<Rightarrow> page" where
  "card_page w c fallback crd =
     (case table_wrapper crd of
        None \<Rightarrow> []
      | Some el \<Rightarrow>
          (case html2canvas w of
             None \<Rightarrow> []
           | Some h \<Rightarrow>
               (case h el of
                  Inl e \<Rightarrow> []
                | Inr canvas \<Rightarrow>
                    (case toDataURL canvas of
                       Inl e \<Rightarrow> []
                     | Inr imgData \<Rightarrow>
                         (case placement (pageWidth c) (pageHeight c) (width canvas) (height canvas) of
                            (ratio, x, y, imgWidth, imgHeight) \<Rightarrow>
                              [AddImage imgData ''PNG'' x y imgWidth imgHeight,
                               SetTextColor 230 230 230, SetFontSize 14,
                               Text (or_else (data_name crd) fallback) 30 30])))))"


section \<open>Facts about the example inputs\<close>

lemma libs_facts:
  "hasHtml2Canvas libs" "get_jsPDF libs = Inr a4" "hasJsPdf libs"
  by (simp_all add: libs_def hasHtml2Canvas_def get_jsPDF_def hasJsPdf_def)


lemma cards3_facts:
  "filter resolves cards3 =
     [mk_card ''class-card-1'' (Some ''10 A'') (Some (Element ''t1'')),
      mk_card ''class-card-3'' None (Some (Element ''t3''))]"
  "list_all (exports_ok libs a4) cards3"
  by (simp_all add: cards3_def resolves_def mk_card_def exports_ok_def libs_def wide_canvas_def
        a4_def)

lemma card_bad_facts:
  "mk_card ''class-card-2'' (Some ''10 B'') (Some (Element ''bad'')) \<in> set cards_bad"
  "raster_throws libs (mk_card ''class-card-2'' (Some ''10 B'') (Some (Element ''bad'')))"
  by (simp_all add: cards_bad_def raster_throws_def mk_card_def libs_def)


section \<open>The status helpers\<close>

lemma showStatus_keeps [simp]:
  "downloads (showStatus m t s) = downloads s"
  "captures (showStatus m t s) = captures s"
  "class_cards (showStatus m t s) = class_cards s"
  "teacher_cards (showStatus m t s) = teacher_cards s"
  by (simp_all add: showStatus_def split: option.splits)

lemma teachers_showStatus_keeps [simp]:
  "downloads (teachers_showStatus m t s) = downloads s"
  "captures (teachers_showStatus m t s) = captures s"
  "class_cards (teachers_showStatus m t s) = class_cards s"
  "teacher_cards (teachers_showStatus m t s) = teacher_cards s"
  "console (teachers_showStatus m t s) = console s"
  by (simp_all add: teachers_showStatus_def split: option.splits)



text \<open>
  C9 (amended). On a page without status element, a call of either status helper
  returns (neither can throw) and shows nothing: the helper of part_000 writes the
  type in capitals and the message to the console and changes nothing else; the
  helper of teachers.js changes nothing at all, the message is not logged.
\<close>

theorem status_without_surface:
  "statusEl s = None \<Longrightarrow>
   showStatus message type s = s\<lparr>console := console s @ [ConsoleLog [toUpperCase type, message]]\<rparr>
   \<and> teachers_showStatus message type s = s"
  by (simp add: showStatus_def teachers_showStatus_def)

theorem status_without_surface_witness:
  "statusEl no_status = None
   \<and> showStatus ''No class timetables to export.'' ''error'' no_status
       = no_status\<lparr>console := [ConsoleLog [''ERROR'', ''No class timetables to export.'']]\<rparr>
   \<and> teachers_showStatus ''No teachers to export.'' ''error'' no_status = no_status"
proof -
  have n: "statusEl no_status = None" "console no_status = []"
    by (simp_all add: no_status_def page0_def)
  have u: "toUpperCase ''error'' = ''ERROR''"
    by (simp add: toUpperCase_def upper_char_def)
  from status_without_surface [OF n(1), of "''No class timetables to export.''" "''error''"]
    status_without_surface [OF n(1), of "''No teachers to export.''" "''error''"] n u
  show ?thesis by simp
qed

theorem status_not_logged_counterexample:
  "statusEl no_status = None
   \<and> console no_status = []
   \<and> console (teachers_showStatus ''No teachers to export.'' ''error'' no_status) = []"
  by (simp add: no_status_def page0_def teachers_showStatus_def)

section \<open>The layout is within the page\<close>



section \<open>File names\<close>

















section \<open>The single-card exports\<close>



lemma exportElementAs_try_throw:
  "fst (exportElementAs_try w format e stem s) \<noteq> Normal \<longrightarrow>
   downloads (snd (exportElementAs_try w format e stem s)) = downloads s"
  by (simp add: exportElementAs_try_def call_html2canvas_def save_def
        split: option.split sum.split prod.split completion.split)

lemma exportElement_try_throw:
  "fst (exportElement_try w format e stem s) \<noteq> Normal \<longrightarrow>
   downloads (snd (exportElement_try w format e stem s)) = downloads s"
  by (simp add: exportElement_try_def call_html2canvas_def save_def
        split: option.split sum.split prod.split completion.split)

text \<open>An exception of the \<^verbatim>\<open>try\<close> block is caught: the call returns, the error
  is written to the console, the status helper is called with the generic message, and
  nothing has been downloaded.\<close>

lemma exportElementAs_catches:
  assumes "hasHtml2Canvas w" and "hasJsPdf w"
    and "exportElementAs_try w format e stem s = (Throw x, s1)"
  shows "exportElementAs w format (Some e) stem s =
           (Normal, showStatus ''Error during export (check console).'' ''error''
              (s1\<lparr>console := console s1 @ [ConsoleError [''Export error:'', exn_text x]]\<rparr>))"
    and "downloads (snd (exportElementAs w format (Some e) stem s)) = downloads s"
proof -
  show "exportElementAs w format (Some e) stem s =
           (Normal, showStatus ''Error during export (check console).'' ''error''
              (s1\<lparr>console := console s1 @ [ConsoleError [''Export error:'', exn_text x]]\<rparr>))"
    using assms by (simp add: exportElementAs_def)
  moreover from exportElementAs_try_throw [of w format e stem s] assms(3)
  have "downloads s1 = downloads s" by simp
  ultimately show "downloads (snd (exportElementAs w format (Some e) stem s)) = downloads s"
    by simp
qed

lemma exportElement_catches:
  assumes "hasHtml2Canvas w" and "hasJsPdf w"
    and "exportElement_try w format e stem s = (Throw x, s1)"
  shows "exportElement w format (Some e) stem s =
           (Normal, teachers_showStatus ''Error while exporting (see console).'' ''error''
              (s1\<lparr>console := console s1 @ [ConsoleError [exn_text x]]\<rparr>))"
    and "downloads (snd (exportElement w format (Some e) stem s)) = downloads s"
proof -
  show "exportElement w format (Some e) stem s =
           (Normal, teachers_showStatus ''Error while exporting (see console).'' ''error''
              (s1\<lparr>console := console s1 @ [ConsoleError [exn_text x]]\<rparr>))"
    using assms by (simp add: exportElement_def)
  moreover from exportElement_try_throw [of w format e stem s] assms(3)
  have "downloads s1 = downloads s" by simp
  ultimately show "downloads (snd (exportElement w format (Some e) stem s)) = downloads s"
    by simp
qed

text \<open>A single-card export as \<^verbatim>\<open>pdf\<close> in which nothing throws downloads a document
  of one page, with the image placed as the layout says.\<close>

lemma exportElementAs_pdf:
  assumes "html2canvas w = Some h" and "get_jsPDF w = Inr c"
    and "h el = Inr canvas" and "toDataURL canvas = Inr imgData"
    and "addImage_exn c imgData = None" and "save_exn c (safeName stem @ ''.pdf'') = None"
  shows "downloads (snd (exportElementAs w ''pdf'' (Some el) stem s)) =
           downloads s @
           [PdfFile (safeName stem @ ''.pdf'')
              [[case placement (pageWidth c) (pageHeight c) (width canvas) (height canvas) of
                  (ratio, x, y, imgWidth, imgHeight) \<Rightarrow>
                    AddImage imgData ''PNG'' x y imgWidth imgHeight]]]"
proof -
  from assms(2) have "hasJsPdf w"
    by (auto simp: hasJsPdf_def get_jsPDF_def split: option.splits)
  with assms show ?thesis
    by (simp add: exportElementAs_def exportElementAs_try_def hasHtml2Canvas_def
          call_html2canvas_def addImage_def save_def new_jsPDF_def pages_def draw_def
          placement_def Let_def)
qed

lemma exportElement_pdf:
  assumes "html2canvas w = Some h" and "get_jsPDF w = Inr c"
    and "h el = Inr canvas" and "toDataURL canvas = Inr imgData"
    and "addImage_exn c imgData = None" and "save_exn c (safeName stem @ ''.pdf'') = None"
  shows "downloads (snd (exportElement w ''pdf'' (Some el) stem s)) =
           downloads s @
           [PdfFile (safeName stem @ ''.pdf'')
              [[case placement (pageWidth c) (pageHeight c) (width canvas) (height canvas) of
                  (ratio, x, y, imgWidth, imgHeight) \<Rightarrow>
                    AddImage imgData ''PNG'' x y imgWidth imgHeight]]]"
proof -
  from assms(2) have "hasJsPdf w"
    by (auto simp: hasJsPdf_def get_jsPDF_def split: option.splits)
  with assms show ?thesis
    by (simp add: exportElement_def exportElement_try_def hasHtml2Canvas_def
          call_html2canvas_def addImage_def save_def new_jsPDF_def pages_def draw_def
          placement_def Let_def)
qed





section \<open>The batch loop\<close>

lemma captions_append: "captions (xs @ ys) = captions xs @ captions ys"
  by (induction xs rule: captions.induct) simp_all

lemma export_loop_downloads:
  "downloads (snd (export_loop w c fb cards d first s)) = downloads s"
proof (induction cards arbitrary: d first s)
  case Nil
  show ?case by simp
next
  case (Cons x xs)
  show ?case
    by (simp add: Cons.IH call_html2canvas_def Let_def
          split: option.split sum.split prod.split)
qed

lemma export_loop_throws:
  "crd \<in> set cards \<Longrightarrow> raster_throws w crd \<Longrightarrow> isl (fst (export_loop w c fb cards d first s))"
proof (induction cards arbitrary: d first s)
  case Nil
  then show ?case by simp
next
  case (Cons x xs)
  show ?case
  proof (cases "raster_throws w x")
    case True
    then show ?thesis
      by (simp add: raster_throws_def call_html2canvas_def Let_def
            split: option.splits sum.splits)
  next
    case False
    with Cons.prems have "crd \<in> set xs" by auto
    with Cons.IH Cons.prems(2) have "\<And>d first s. isl (fst (export_loop w c fb xs d first s))"
      by blast
    then show ?thesis
      by (simp add: call_html2canvas_def Let_def split: option.split sum.split prod.split)
  qed
qed

lemma export_loop_pages:
  "export_loop w c fb cards d first s = (Inr d', s') \<Longrightarrow>
   pages d' =
     (if first then
        (case filter resolves cards of
           [] \<Rightarrow> pages d
         | r # rs \<Rightarrow> done_pages d @ [cur_page d @ card_page w c fb r] @ map (card_page w c fb) rs)
      else pages d @ map (card_page w c fb) (filter resolves cards))"
proof (induction cards arbitrary: d first s)
  case Nil
  then show ?case by simp
next
  case (Cons x xs)
  show ?case
  proof (cases "table_wrapper x")
    case None
    with Cons.prems have "export_loop w c fb xs d first s = (Inr d', s')"
      by simp
    moreover from None have "\<not> resolves x"
      by (simp add: resolves_def)
    ultimately show ?thesis
      using Cons.IH [of d first s] by simp
  next
    case (Some el)
    from Cons.prems Some obtain h canvas imgData where
      h: "html2canvas w = Some h" and cv: "h el = Inr canvas"
      and img: "toDataURL canvas = Inr imgData" and ok: "addImage_exn c imgData = None"
      by (simp add: call_html2canvas_def addImage_def Let_def
            split: option.splits sum.splits prod.splits)
    define d2 where "d2 =
      draw (Text (or_else (data_name x) fb) 30 30)
        (draw (SetFontSize 14) (draw (SetTextColor 230 230 230)
          (draw (case placement (pageWidth c) (pageHeight c) (width canvas) (height canvas) of
                   (ratio, x, y, imgWidth, imgHeight) \<Rightarrow> AddImage imgData ''PNG'' x y imgWidth imgHeight)
             (if \<not> first then addPage d else d))))"
    from Cons.prems Some h cv img ok
    have rec [simp]: "export_loop w c fb xs d2 False (s\<lparr>captures := captures s @ [el]\<rparr>) = (Inr d', s')"
      by (simp add: call_html2canvas_def addImage_def Let_def d2_def placement_def)
    moreover have pg: "pages d2 = (if first then done_pages d @ [cur_page d @ card_page w c fb x]
                          else pages d @ [card_page w c fb x])"
      using Some h cv img
      by (simp add: d2_def pages_def draw_def addPage_def card_page_def placement_def Let_def)
    moreover from Some have "resolves x"
      by (simp add: resolves_def)
    ultimately show ?thesis
      using Cons.IH [OF rec] by simp
  qed
qed

lemma export_loop_returns:
  "list_all (exports_ok w c) cards \<Longrightarrow> \<not> isl (fst (export_loop w c fb cards d first s))"
proof (induction cards arbitrary: d first s)
  case Nil
  show ?case by simp
next
  case (Cons x xs)
  then have rest: "\<And>d first s. \<not> isl (fst (export_loop w c fb xs d first s))"
    by simp
  show ?case
  proof (cases "table_wrapper x")
    case None
    with rest show ?thesis by simp
  next
    case (Some el)
    from Cons.prems have "exports_ok w c x" by simp
    with Some obtain h canvas imgData where
      "html2canvas w = Some h" "h el = Inr canvas"
      "toDataURL canvas = Inr imgData" "addImage_exn c imgData = None"
      by (auto simp: exports_ok_def split: option.splits sum.splits)
    with Some rest show ?thesis
      by (simp add: call_html2canvas_def addImage_def placement_def Let_def)
  qed
qed

lemma export_loop_fails:
  "\<not> list_all (exports_ok w c) cards \<Longrightarrow> isl (fst (export_loop w c fb cards d first s))"
proof (induction cards arbitrary: d first s)
  case Nil
  then show ?case by simp
next
  case (Cons x xs)
  show ?case
  proof (cases "exports_ok w c x")
    case True
    with Cons have rest: "\<And>d first s. isl (fst (export_loop w c fb xs d first s))"
      by simp
    then show ?thesis
      by (simp add: call_html2canvas_def addImage_def Let_def
            split: option.split sum.split prod.split)
  next
    case False
    then show ?thesis
      by (auto simp: exports_ok_def call_html2canvas_def addImage_def placement_def Let_def
            split: option.splits sum.splits)
  qed
qed

lemma captions_card_page:
  "exports_ok w c crd \<Longrightarrow> resolves crd \<Longrightarrow>
   captions (card_page w c fb crd) = [or_else (data_name crd) fb]"
  by (auto simp: exports_ok_def resolves_def card_page_def placement_def Let_def
        split: option.splits sum.splits)

lemma captions_card_pages:
  "list_all (exports_ok w c) cards \<Longrightarrow>
   map captions (map (card_page w c fb) (filter resolves cards))
     = map (\<lambda>crd. [or_else (data_name crd) fb]) (filter resolves cards)"
  by (induction cards) (simp_all add: captions_card_page)

text \<open>The loop on a new document: every card is handled without an exception and the
  pages are those of the cards that resolve, or the loop ends with an exception;
  the downloads are as before either way.\<close>

lemma export_loop_new:
  "if list_all (exports_ok w c) cards then
     \<exists>d' s'. export_loop w c fb cards new_jsPDF True s = (Inr d', s')
        \<and> downloads s' = downloads s
        \<and> pages d' = (if filter resolves cards = [] then [[]]
                       else map (card_page w c fb) (filter resolves cards))
   else \<exists>e s'. export_loop w c fb cards new_jsPDF True s = (Inl e, s') \<and> downloads s' = downloads s"
proof (cases "list_all (exports_ok w c) cards")
  case True
  obtain r s' where r: "export_loop w c fb cards new_jsPDF True s = (r, s')"
    by (cases "export_loop w c fb cards new_jsPDF True s")
  with export_loop_returns [OF True, of fb new_jsPDF True s] obtain d' where d': "r = Inr d'"
    by (cases r) simp_all
  from export_loop_downloads [of w c fb cards new_jsPDF True s] r
  have "downloads s' = downloads s" by simp
  moreover from export_loop_pages [of w c fb cards new_jsPDF True s d' s'] r d'
  have "pages d' = (if filter resolves cards = [] then [[]]
                    else map (card_page w c fb) (filter resolves cards))"
    by (simp add: new_jsPDF_def pages_def split: list.splits)
  ultimately show ?thesis
    using True r d' by simp
next
  case False
  obtain r s' where r: "export_loop w c fb cards new_jsPDF True s = (r, s')"
    by (cases "export_loop w c fb cards new_jsPDF True s")
  with export_loop_fails [OF False, of fb new_jsPDF True s] obtain e where "r = Inl e"
    by (cases r) simp_all
  moreover from export_loop_downloads [of w c fb cards new_jsPDF True s] r
  have "downloads s' = downloads s" by simp
  ultimately show ?thesis
    using False r by simp
qed

section \<open>The batch exports\<close>

lemma hasJsPdf_get: "hasJsPdf w \<longleftrightarrow> (\<exists>c. get_jsPDF w = Inr c)"
  by (simp add: hasJsPdf_def get_jsPDF_def split: option.split)

lemma exportAllClassesPdf_result:
  assumes "hasHtml2Canvas w" and "get_jsPDF w = Inr c" and "class_cards s \<noteq> []"
  shows "if list_all (exports_ok w c) (class_cards s) \<and> save_exn c ''timetable-all-classes.pdf'' = None
         then \<exists>s'. exportAllClassesPdf w s = (Normal, s')
                \<and> downloads s' = downloads s @ [PdfFile ''timetable-all-classes.pdf''
                     (if filter resolves (class_cards s) = [] then [[]]
                      else map (card_page w c ''class'') (filter resolves (class_cards s)))]
         else \<exists>e s'. exportAllClassesPdf w s = (Throw e, s') \<and> downloads s' = downloads s"
proof -
  let ?s1 = "showStatus (''Preparing all class timetables as PDF'' @ ellipsis) ''success'' s"
  from assms(2) have j: "hasJsPdf w"
    by (auto simp: hasJsPdf_get)
  note loop = export_loop_new [of w c "class_cards s" "''class''" ?s1]
  show ?thesis
  proof (cases "list_all (exports_ok w c) (class_cards s)")
    case True
    with loop obtain d' s' where
      l: "export_loop w c ''class'' (class_cards s) new_jsPDF True ?s1 = (Inr d', s')"
      and dl: "downloads s' = downloads s"
      and pg: "pages d' = (if filter resolves (class_cards s) = [] then [[]]
                           else map (card_page w c ''class'') (filter resolves (class_cards s)))"
      by auto
    show ?thesis
    proof (cases "save_exn c ''timetable-all-classes.pdf''")
      case None
      with True assms j l dl pg show ?thesis
        by (simp add: exportAllClassesPdf_def save_def Let_def)
    next
      case (Some e)
      with True assms j l dl show ?thesis
        by (simp add: exportAllClassesPdf_def save_def Let_def)
    qed
  next
    case False
    with loop obtain e s' where
      "export_loop w c ''class'' (class_cards s) new_jsPDF True ?s1 = (Inl e, s')"
      "downloads s' = downloads s"
      by auto
    with False assms j show ?thesis
      by (simp add: exportAllClassesPdf_def Let_def)
  qed
qed

lemma btnAll_handler_result:
  assumes "get_jsPDF w = Inr c" and "teacher_cards s \<noteq> []"
  shows "if list_all (exports_ok w c) (teacher_cards s) \<and> save_exn c ''timetable-all-teachers.pdf'' = None
         then \<exists>s'. btnAll_handler w s = (Normal, s')
                \<and> downloads s' = downloads s @ [PdfFile ''timetable-all-teachers.pdf''
                     (if filter resolves (teacher_cards s) = [] then [[]]
                      else map (card_page w c ''teacher'') (filter resolves (teacher_cards s)))]
         else \<exists>e s'. btnAll_handler w s = (Throw e, s') \<and> downloads s' = downloads s"
proof -
  let ?s1 = "teachers_showStatus (''Preparing all teacher timetables as PDF'' @ ellipsis) ''success'' s"
  note loop = export_loop_new [of w c "teacher_cards s" "''teacher''" ?s1]
  show ?thesis
  proof (cases "list_all (exports_ok w c) (teacher_cards s)")
    case True
    with loop obtain d' s' where
      l: "export_loop w c ''teacher'' (teacher_cards s) new_jsPDF True ?s1 = (Inr d', s')"
      and dl: "downloads s' = downloads s"
      and pg: "pages d' = (if filter resolves (teacher_cards s) = [] then [[]]
                           else map (card_page w c ''teacher'') (filter resolves (teacher_cards s)))"
      by auto
    show ?thesis
    proof (cases "save_exn c ''timetable-all-teachers.pdf''")
      case None
      with True assms l dl pg show ?thesis
        by (simp add: btnAll_handler_def save_def Let_def)
    next
      case (Some e)
      with True assms l dl show ?thesis
        by (simp add: btnAll_handler_def save_def Let_def)
    qed
  next
    case False
    with loop obtain e s' where
      "export_loop w c ''teacher'' (teacher_cards s) new_jsPDF True ?s1 = (Inl e, s')"
      "downloads s' = downloads s"
      by auto
    with False assms show ?thesis
      by (simp add: btnAll_handler_def Let_def)
  qed
qed

text \<open>
  C2 (amended). With both libraries present and at least one card whose table wrapper
  is found, a batch export of either script ends in one of two ways. If nothing throws
  (every wrapper found is rasterized, \<^verbatim>\<open>addImage\<close> takes every image and
  \<^verbatim>\<open>save\<close> succeeds), exactly one document is downloaded; it has one page per
  card whose wrapper is found, in the order of the cards, page \<open>i\<close> holds the image of
  the \<open>i\<close>-th such card and, as its only text, that card's name or the fallback name.
  Otherwise the call ends with an exception and nothing is downloaded.
\<close>

theorem batch_pages_follow_cards:
  assumes "hasHtml2Canvas w" and "get_jsPDF w = Inr c"
  shows "(filter resolves (class_cards s) \<noteq> [] \<longrightarrow>
           (if list_all (exports_ok w c) (class_cards s)
                 \<and> save_exn c ''timetable-all-classes.pdf'' = None
            then \<exists>s' pgs. exportAllClassesPdf w s = (Normal, s')
                   \<and> downloads s' = downloads s @ [PdfFile ''timetable-all-classes.pdf'' pgs]
                   \<and> length pgs = length (filter resolves (class_cards s))
                   \<and> pgs = map (card_page w c ''class'') (filter resolves (class_cards s))
                   \<and> map captions pgs
                       = map (\<lambda>crd. [or_else (data_name crd) ''class''])
                           (filter resolves (class_cards s))
            else \<exists>e s'. exportAllClassesPdf w s = (Throw e, s') \<and> downloads s' = downloads s))
       \<and> (filter resolves (teacher_cards s) \<noteq> [] \<longrightarrow>
           (if list_all (exports_ok w c) (teacher_cards s)
                 \<and> save_exn c ''timetable-all-teachers.pdf'' = None
            then \<exists>s' pgs. btnAll_handler w s = (Normal, s')
                   \<and> downloads s' = downloads s @ [PdfFile ''timetable-all-teachers.pdf'' pgs]
                   \<and> length pgs = length (filter resolves (teacher_cards s))
                   \<and> pgs = map (card_page w c ''teacher'') (filter resolves (teacher_cards s))
                   \<and> map captions pgs
                       = map (\<lambda>crd. [or_else (data_name crd) ''teacher''])
                           (filter resolves (teacher_cards s))
            else \<exists>e s'. btnAll_handler w s = (Throw e, s') \<and> downloads s' = downloads s))"
proof (intro conjI impI)
  let ?R = "filter resolves (class_cards s)"
  let ?ok = "list_all (exports_ok w c) (class_cards s)
               \<and> save_exn c ''timetable-all-classes.pdf'' = None"
  assume r: "?R \<noteq> []"
  then have ne: "class_cards s \<noteq> []" by auto
  note res = exportAllClassesPdf_result [OF assms ne]
  show "if ?ok
        then \<exists>s' pgs. exportAllClassesPdf w s = (Normal, s')
               \<and> downloads s' = downloads s @ [PdfFile ''timetable-all-classes.pdf'' pgs]
               \<and> length pgs = length ?R
               \<and> pgs = map (card_page w c ''class'') ?R
               \<and> map captions pgs = map (\<lambda>crd. [or_else (data_name crd) ''class'']) ?R
        else \<exists>e s'. exportAllClassesPdf w s = (Throw e, s') \<and> downloads s' = downloads s"
  proof (cases ?ok)
    case True
    with res r obtain s' where
      "exportAllClassesPdf w s = (Normal, s')"
      "downloads s' = downloads s @ [PdfFile ''timetable-all-classes.pdf''
                                       (map (card_page w c ''class'') ?R)]"
      by auto
    moreover from True have
      "map captions (map (card_page w c ''class'') ?R)
         = map (\<lambda>crd. [or_else (data_name crd) ''class'']) ?R"
      by (simp only: captions_card_pages)
    ultimately show ?thesis
      using True by simp
  next
    case False
    with res show ?thesis by auto
  qed
next
  let ?R = "filter resolves (teacher_cards s)"
  let ?ok = "list_all (exports_ok w c) (teacher_cards s)
               \<and> save_exn c ''timetable-all-teachers.pdf'' = None"
  assume r: "?R \<noteq> []"
  then have ne: "teacher_cards s \<noteq> []" by auto
  note res = btnAll_handler_result [OF assms(2) ne]
  show "if ?ok
        then \<exists>s' pgs. btnAll_handler w s = (Normal, s')
               \<and> downloads s' = downloads s @ [PdfFile ''timetable-all-teachers.pdf'' pgs]
               \<and> length pgs = length ?R
               \<and> pgs = map (card_page w c ''teacher'') ?R
               \<and> map captions pgs = map (\<lambda>crd. [or_else (data_name crd) ''teacher'']) ?R
        else \<exists>e s'. btnAll_handler w s = (Throw e, s') \<and> downloads s' = downloads s"
  proof (cases ?ok)
    case True
    with res r obtain s' where
      "btnAll_handler w s = (Normal, s')"
      "downloads s' = downloads s @ [PdfFile ''timetable-all-teachers.pdf''
                                       (map (card_page w c ''teacher'') ?R)]"
      by auto
    moreover from True have
      "map captions (map (card_page w c ''teacher'') ?R)
         = map (\<lambda>crd. [or_else (data_name crd) ''teacher'']) ?R"
      by (simp only: captions_card_pages)
    ultimately show ?thesis
      using True by simp
  next
    case False
    with res show ?thesis by auto
  qed
qed

theorem batch_pages_follow_cards_witness:
  "hasHtml2Canvas libs \<and> get_jsPDF libs = Inr a4 \<and> filter resolves cards3 \<noteq> []
   \<and> (\<exists>s' pgs. exportAllClassesPdf libs (page0 cards3) = (Normal, s')
         \<and> downloads s' = [PdfFile ''timetable-all-classes.pdf'' pgs]
         \<and> length pgs = 2 \<and> map captions pgs = [[''10 A''], [''class'']])
   \<and> (\<exists>s' pgs. btnAll_handler libs (page0 cards3) = (Normal, s')
         \<and> downloads s' = [PdfFile ''timetable-all-teachers.pdf'' pgs]
         \<and> length pgs = 2 \<and> map captions pgs = [[''10 A''], [''teacher'']])"
proof -
  have s: "save_exn a4 ''timetable-all-classes.pdf'' = None"
    "save_exn a4 ''timetable-all-teachers.pdf'' = None"
    by (simp_all add: a4_def)
  have p: "class_cards (page0 cards3) = cards3" "teacher_cards (page0 cards3) = cards3"
    "downloads (page0 cards3) = []"
    by (simp_all add: page0_def)
  have n: "map (\<lambda>crd. [or_else (data_name crd) ''class'']) (filter resolves cards3)
             = [[''10 A''], [''class'']]"
    "map (\<lambda>crd. [or_else (data_name crd) ''teacher'']) (filter resolves cards3)
             = [[''10 A''], [''teacher'']]"
    by (simp_all add: cards3_facts(1) mk_card_def or_else_def)
  have l: "length (filter resolves cards3) = 2" "filter resolves cards3 \<noteq> []"
    by (simp_all add: cards3_facts(1))
  from batch_pages_follow_cards [OF libs_facts(1,2), of "page0 cards3"]
  have "\<exists>s' pgs. exportAllClassesPdf libs (page0 cards3) = (Normal, s')
          \<and> downloads s' = [PdfFile ''timetable-all-classes.pdf'' pgs]
          \<and> length pgs = 2 \<and> map captions pgs = [[''10 A''], [''class'']]"
    and "\<exists>s' pgs. btnAll_handler libs (page0 cards3) = (Normal, s')
          \<and> downloads s' = [PdfFile ''timetable-all-teachers.pdf'' pgs]
          \<and> length pgs = 2 \<and> map captions pgs = [[''10 A''], [''teacher'']]"
    unfolding p using cards3_facts(2) s l n by auto
  with libs_facts(1,2) l(2) show ?thesis by blast
qed

theorem batch_pages_counterexample:
  "downloads (snd (exportAllClassesPdf libs (page0 cards_unresolved)))
     = [PdfFile ''timetable-all-classes.pdf'' [[]]]
   \<and> length [[] :: page] = 1
   \<and> length (filter resolves cards_unresolved) = 0"
  by (simp add: exportAllClassesPdf_def libs_facts page0_def cards_unresolved_def mk_card_def
        showStatus_def save_def a4_def new_jsPDF_def pages_def resolves_def)

lemma raster_throws_lib: "raster_throws w crd \<Longrightarrow> hasHtml2Canvas w"
  by (simp add: raster_throws_def hasHtml2Canvas_def split: option.splits)

lemma exportAllClassesPdf_aborts:
  assumes "crd \<in> set (class_cards s)" and "raster_throws w crd"
  shows "downloads (snd (exportAllClassesPdf w s)) = downloads s"
    and "hasJsPdf w \<Longrightarrow> \<exists>e. fst (exportAllClassesPdf w s) = Throw e"
proof -
  let ?s1 = "showStatus (''Preparing all class timetables as PDF'' @ ellipsis) ''success'' s"
  from assms(1) have ne: "length (class_cards s) \<noteq> 0" by auto
  from assms(2) have h: "hasHtml2Canvas w" by (rule raster_throws_lib)
  have run: "\<And>c. get_jsPDF w = Inr c \<Longrightarrow>
               \<exists>e s2. exportAllClassesPdf w s = (Throw e, s2) \<and> downloads s2 = downloads s"
  proof -
    fix c
    assume c: "get_jsPDF w = Inr c"
    then have j: "hasJsPdf w" by (auto simp: hasJsPdf_get)
    obtain r s2 where l: "export_loop w c ''class'' (class_cards s) new_jsPDF True ?s1 = (r, s2)"
      by (cases "export_loop w c ''class'' (class_cards s) new_jsPDF True ?s1")
    with export_loop_throws [OF assms, of c "''class''" new_jsPDF True ?s1]
    obtain e where e: "r = Inl e" by (cases r) simp_all
    from export_loop_downloads [of w c "''class''" "class_cards s" new_jsPDF True ?s1] l
    have "downloads s2 = downloads s" by simp
    with ne h j c l e show
      "\<exists>e s2. exportAllClassesPdf w s = (Throw e, s2) \<and> downloads s2 = downloads s"
      by (simp add: exportAllClassesPdf_def Let_def)
  qed
  show "downloads (snd (exportAllClassesPdf w s)) = downloads s"
  proof (cases "hasJsPdf w")
    case True
    then obtain c where "get_jsPDF w = Inr c" by (auto simp: hasJsPdf_get)
    from run [OF this] show ?thesis by auto
  next
    case False
    then show ?thesis by (simp add: exportAllClassesPdf_def)
  qed
  show "\<exists>e. fst (exportAllClassesPdf w s) = Throw e" if "hasJsPdf w"
  proof -
    from that obtain c where "get_jsPDF w = Inr c" by (auto simp: hasJsPdf_get)
    from run [OF this] show ?thesis by auto
  qed
qed

lemma btnAll_handler_aborts:
  assumes "crd \<in> set (teacher_cards s)" and "raster_throws w crd"
  shows "downloads (snd (btnAll_handler w s)) = downloads s \<and> (\<exists>e. fst (btnAll_handler w s) = Throw e)"
proof -
  let ?s1 = "teachers_showStatus (''Preparing all teacher timetables as PDF'' @ ellipsis) ''success'' s"
  from assms(1) have ne: "length (teacher_cards s) \<noteq> 0" by auto
  show ?thesis
  proof (cases "get_jsPDF w")
    case (Inl e)
    with ne show ?thesis by (simp add: btnAll_handler_def Let_def)
  next
    case (Inr c)
    obtain r s2 where l: "export_loop w c ''teacher'' (teacher_cards s) new_jsPDF True ?s1 = (r, s2)"
      by (cases "export_loop w c ''teacher'' (teacher_cards s) new_jsPDF True ?s1")
    with export_loop_throws [OF assms, of c "''teacher''" new_jsPDF True ?s1]
    obtain e where e: "r = Inl e" by (cases r) simp_all
    from export_loop_downloads [of w c "''teacher''" "teacher_cards s" new_jsPDF True ?s1] l
    have "downloads s2 = downloads s" by simp
    with ne Inr l e show ?thesis
      by (simp add: btnAll_handler_def Let_def)
  qed
qed

text \<open>
  C3. If the rasterization of some card of the collection throws (its wrapper is
  rejected by \<^verbatim>\<open>html2canvas\<close>, or \<^verbatim>\<open>toDataURL\<close> throws on its canvas), a batch
  export of either script downloads nothing; with the document library present the
  call ends with an exception, whatever the position of the card. The document in
  the making is a variable of the call and is gone with it.
\<close>

theorem batch_aborts_when_raster_throws:
  "(crd \<in> set (class_cards s) \<and> raster_throws w crd \<longrightarrow>
      downloads (snd (exportAllClassesPdf w s)) = downloads s
      \<and> (hasJsPdf w \<longrightarrow> (\<exists>e. fst (exportAllClassesPdf w s) = Throw e)))
   \<and> (crd \<in> set (teacher_cards s) \<and> raster_throws w crd \<longrightarrow>
      downloads (snd (btnAll_handler w s)) = downloads s
      \<and> (\<exists>e. fst (btnAll_handler w s) = Throw e))"
  using exportAllClassesPdf_aborts [of crd s w] btnAll_handler_aborts [of crd s w]
  by blast

theorem batch_aborts_when_raster_throws_witness:
  "mk_card ''class-card-2'' (Some ''10 B'') (Some (Element ''bad'')) \<in> set (class_cards (page0 cards_bad))
   \<and> mk_card ''class-card-2'' (Some ''10 B'') (Some (Element ''bad'')) \<in> set (teacher_cards (page0 cards_bad))
   \<and> raster_throws libs (mk_card ''class-card-2'' (Some ''10 B'') (Some (Element ''bad'')))
   \<and> hasJsPdf libs
   \<and> downloads (snd (exportAllClassesPdf libs (page0 cards_bad))) = []
   \<and> (\<exists>e. fst (exportAllClassesPdf libs (page0 cards_bad)) = Throw e)
   \<and> downloads (snd (btnAll_handler libs (page0 cards_bad))) = []
   \<and> (\<exists>e. fst (btnAll_handler libs (page0 cards_bad)) = Throw e)"
proof -
  have p: "class_cards (page0 cards_bad) = cards_bad" "teacher_cards (page0 cards_bad) = cards_bad"
    "downloads (page0 cards_bad) = []"
    by (simp_all add: page0_def)
  from batch_aborts_when_raster_throws
         [of "mk_card ''class-card-2'' (Some ''10 B'') (Some (Element ''bad''))"
             "page0 cards_bad" libs]
  show ?thesis
    unfolding p using card_bad_facts libs_facts(3) by simp
qed



text \<open>
  C4. The batch exports do not catch: with both libraries present and the cards
  \<open>cards_bad\<close>, whose second card cannot be rasterized, \<^verbatim>\<open>exportAllClassesPdf\<close> and the
  click on the button of teachers.js end with the exception of \<^verbatim>\<open>html2canvas\<close>; the
  status element still shows the "Preparing" message as a success, and no error
  status is shown. The single-card export of the same element catches the exception
  and shows the generic error.
\<close>

theorem batch_exception_escapes:
  "exportAllClassesPdf libs (page0 cards_bad) =
     (Throw (Exn ''render failed''),
      (page0 cards_bad)
        \<lparr>statusEl := Some \<lparr>textContent = ''Preparing all class timetables as PDF'' @ ellipsis,
                            classList = [''tt-status__toast'', ''tt-status__toast--visible'',
                                         ''tt-status__toast--success'']\<rparr>,
         captures := [Element ''t1'', Element ''bad'']\<rparr>)
   \<and> btnAll_click True libs (page0 cards_bad) =
     (Throw (Exn ''render failed''),
      (page0 cards_bad)
        \<lparr>statusEl := Some \<lparr>textContent = ''Preparing all teacher timetables as PDF'' @ ellipsis,
                            classList = [''tt-status__toast'', ''tt-status__toast--visible'',
                                         ''tt-status__toast--success'']\<rparr>,
         captures := [Element ''t1'', Element ''bad'']\<rparr>)
   \<and> exportElementAs libs ''pdf'' (Some (Element ''bad'')) ''timetable-10 B'' (page0 cards_bad) =
     (Normal,
      (page0 cards_bad)
        \<lparr>statusEl := Some \<lparr>textContent = ''Error during export (check console).'',
                            classList = [''tt-status__toast'', ''tt-status__toast--visible'',
                                         ''tt-status__toast--error'']\<rparr>,
         console := [ConsoleError [''Export error:'', ''render failed'']],
         captures := [Element ''bad'']\<rparr>)"
proof (intro conjI)
  show "exportAllClassesPdf libs (page0 cards_bad) =
     (Throw (Exn ''render failed''),
      (page0 cards_bad)
        \<lparr>statusEl := Some \<lparr>textContent = ''Preparing all class timetables as PDF'' @ ellipsis,
                            classList = [''tt-status__toast'', ''tt-status__toast--visible'',
                                         ''tt-status__toast--success'']\<rparr>,
         captures := [Element ''t1'', Element ''bad'']\<rparr>)"
    by (simp add: exportAllClassesPdf_def libs_facts)
       (simp add: libs_def page0_def cards_bad_def mk_card_def showStatus_def a4_def
          call_html2canvas_def wide_canvas_def placement_def addImage_def)
  show "btnAll_click True libs (page0 cards_bad) =
     (Throw (Exn ''render failed''),
      (page0 cards_bad)
        \<lparr>statusEl := Some \<lparr>textContent = ''Preparing all teacher timetables as PDF'' @ ellipsis,
                            classList = [''tt-status__toast'', ''tt-status__toast--visible'',
                                         ''tt-status__toast--success'']\<rparr>,
         captures := [Element ''t1'', Element ''bad'']\<rparr>)"
    by (simp add: btnAll_click_def btnAll_listener_def btnAll_handler_def libs_facts)
       (simp add: libs_def page0_def cards_bad_def mk_card_def teachers_showStatus_def a4_def
          call_html2canvas_def wide_canvas_def placement_def addImage_def)
  show "exportElementAs libs ''pdf'' (Some (Element ''bad'')) ''timetable-10 B'' (page0 cards_bad) =
     (Normal,
      (page0 cards_bad)
        \<lparr>statusEl := Some \<lparr>textContent = ''Error during export (check console).'',
                            classList = [''tt-status__toast'', ''tt-status__toast--visible'',
                                         ''tt-status__toast--error'']\<rparr>,
         console := [ConsoleError [''Export error:'', ''render failed'']],
         captures := [Element ''bad'']\<rparr>)"
    by (simp add: exportElementAs_def exportElementAs_try_def libs_facts)
       (simp add: libs_def page0_def showStatus_def call_html2canvas_def)
qed

theorem batch_exception_escapes_witness:
  "hasHtml2Canvas libs \<and> hasJsPdf libs \<and> statusEl (page0 cards_bad) \<noteq> None
   \<and> fst (exportAllClassesPdf libs (page0 cards_bad)) = Throw (Exn ''render failed'')
   \<and> downloads (snd (exportAllClassesPdf libs (page0 cards_bad))) = []
   \<and> fst (btnAll_click True libs (page0 cards_bad)) = Throw (Exn ''render failed'')
   \<and> downloads (snd (btnAll_click True libs (page0 cards_bad))) = []
   \<and> fst (exportElementAs libs ''pdf'' (Some (Element ''bad'')) ''timetable-10 B''
             (page0 cards_bad)) = Normal"
  using batch_exception_escapes libs_facts by (simp add: page0_def)

section \<open>Missing libraries\<close>




section \<open>The search filter\<close>







end
